theory Spec2Isabelle
  imports Complex_Main
begin

section \<open>Errors and printing\<close>

text \<open>
  The exceptions the two modules raise themselves or let through from the libraries
  they call. A failing call is a value \<open>Inl e\<close>.
\<close>

datatype error = ValueError | IndexError | NotImplementedError | AttributeError | RuntimeError

definition digit_char :: "nat \<Rightarrow> char" where
  "digit_char d = char_of (48 + d)"

fun digits_of_nat :: "nat \<Rightarrow> string" where
  "digits_of_nat n =
     (if n < 10 then [digit_char n] else digits_of_nat (n div 10) @ [digit_char (n mod 10)])"

declare digits_of_nat.simps [simp del]

definition str_int :: "int \<Rightarrow> string" where
  \<comment> \<open>Python's \<open>str\<close> on an integer.\<close>
  "str_int i = (if i < 0 then CHR ''-'' # digits_of_nat (nat (- i)) else digits_of_nat (nat i))"

section \<open>The scikit-learn classification metrics called by lib/evaluate.py\<close>

text \<open>
  These functions are not code of the repository. They are written down from the
  library's documented behaviour, over class values of any linearly ordered type, with
  the positive class passed explicitly (the library's default \<open>pos_label=1\<close>).
\<close>

definition unique_labels :: "'a::linorder list \<Rightarrow> 'a list \<Rightarrow> 'a list" where
  \<comment> \<open>The sorted distinct class values occurring in either sequence.\<close>
  "unique_labels y_true y_pred = sort (remdups (y_true @ y_pred))"

definition count_where :: "('a \<Rightarrow> 'a \<Rightarrow> bool) \<Rightarrow> 'a list \<Rightarrow> 'a list \<Rightarrow> nat" where
  \<comment> \<open>How many samples have a (true, predicted) pair satisfying \<open>P\<close>.\<close>
  "count_where P y_true y_pred = length (filter (\<lambda>(t, p). P t p) (zip y_true y_pred))"

definition confusion_matrix :: "'a::linorder list \<Rightarrow> 'a list \<Rightarrow> error + nat list list" where
  \<comment> \<open>Rows are true classes, columns predicted classes, both in sorted order over the
      classes present in either argument. Sequences of different lengths are rejected.\<close>
  "confusion_matrix y_true y_pred =
     (if length y_true \<noteq> length y_pred then Inl ValueError
      else let classes = unique_labels y_true y_pred
           in Inr (map (\<lambda>a. map (\<lambda>b. count_where (\<lambda>t p. t = a \<and> p = b) y_true y_pred) classes)
                       classes))"

definition prf_divide :: "nat \<Rightarrow> nat \<Rightarrow> real" where
  \<comment> \<open>A ratio of counts; a zero denominator gives 0 (with a warning in the library).\<close>
  "prf_divide n d = (if d = 0 then 0 else real n / real d)"

definition precision_recall_fscore_support ::
    "'a::linorder \<Rightarrow> 'a list \<Rightarrow> 'a list \<Rightarrow> error + (real \<times> real \<times> real)" where
  \<comment> \<open>\<open>average="binary"\<close>: precision, recall and F1 of the class \<open>pos_label\<close>. More than two
      classes, or two classes without \<open>pos_label\<close> among them, are rejected.\<close>
  "precision_recall_fscore_support pos_label y_true y_pred =
     (if length y_true \<noteq> length y_pred then Inl ValueError
      else let present = unique_labels y_true y_pred in
        if length present > 2 then Inl ValueError
        else if pos_label \<notin> set present \<and> length present \<ge> 2 then Inl ValueError
        else
          let tp = count_where (\<lambda>t p. t = pos_label \<and> p = pos_label) y_true y_pred;
              fp = count_where (\<lambda>t p. t \<noteq> pos_label \<and> p = pos_label) y_true y_pred;
              fn = count_where (\<lambda>t p. t = pos_label \<and> p \<noteq> pos_label) y_true y_pred;
              precision = prf_divide tp (tp + fp);
              recall = prf_divide tp (tp + fn);
              f = (if precision + recall = 0 then 0
                   else 2 * precision * recall / (precision + recall))
          in Inr (precision, recall, f))"

definition f1_score :: "'a::linorder \<Rightarrow> 'a list \<Rightarrow> 'a list \<Rightarrow> error + real" where
  "f1_score pos_label y_true y_pred =
     (case precision_recall_fscore_support pos_label y_true y_pred of
        Inl e \<Rightarrow> Inl e
      | Inr (precision, recall, f) \<Rightarrow> Inr f)"

section \<open>lib/evaluate.py: get_values_for_pr_curve\<close>

text \<open>
  Labels are integers, scores and thresholds real numbers (the source's floating-point
  values, compared exactly). The six result lists and the lines printed so far are the
  state of the loop.
\<close>

record pr_acc =
  precisions :: "real list"
  recalls :: "real list"
  tn_counts :: "nat list"
  fp_counts :: "nat list"
  fn_counts :: "nat list"
  tp_counts :: "nat list"
  printed :: "string list"

definition empty_acc :: pr_acc where
  "empty_acc = \<lparr>precisions = [], recalls = [], tn_counts = [], fp_counts = [],
                fn_counts = [], tp_counts = [], printed = []\<rparr>"

definition binarize :: "real \<Rightarrow> real list \<Rightarrow> int list" where
  \<comment> \<open>\<open>[1 if ele >= threshold else 0 for ele in scores]\<close>\<close>
  "binarize threshold scores = map (\<lambda>ele. if ele \<ge> threshold then 1 else 0) scores"

fun unpack4 :: "nat list \<Rightarrow> error + (nat \<times> nat \<times> nat \<times> nat)" where
  \<comment> \<open>\<open>tn, fp, fn, tp = ....ravel()\<close>: any other number of entries raises ValueError.\<close>
  "unpack4 [a, b, c, d] = Inr (a, b, c, d)"
| "unpack4 _ = Inl ValueError"

definition skip_message :: "int \<Rightarrow> string" where
  "skip_message c =
     ''y_preds_new did only contain the element '' @ str_int c
       @ ''... Continuing with next iteration!''"

definition single_class :: "int list \<Rightarrow> bool" where
  \<comment> \<open>\<open>len(set(scores_new)) == 1\<close>\<close>
  "single_class scores_new \<longleftrightarrow> length (remdups scores_new) = 1"

definition pr_step :: "int list \<Rightarrow> real list \<Rightarrow> real \<Rightarrow> pr_acc \<Rightarrow> error + pr_acc" where
  \<comment> \<open>The body of the loop, for one threshold. The confusion matrix is computed and
      unpacked before the test for a single predicted class.\<close>
  "pr_step labels scores threshold acc =
     (let scores_new = binarize threshold scores in
      case confusion_matrix labels scores_new of
        Inl e \<Rightarrow> Inl e
      | Inr cm \<Rightarrow>
         (case unpack4 (concat cm) of
            Inl e \<Rightarrow> Inl e
          | Inr (tn, fp, fn, tp) \<Rightarrow>
              if single_class scores_new
              then Inr (acc\<lparr>printed := printed acc @ [skip_message (hd scores_new)]\<rparr>)
              else
                (case precision_recall_fscore_support 1 labels scores_new of
                   Inl e \<Rightarrow> Inl e
                 | Inr (precision, recall, f) \<Rightarrow>
                     Inr (acc\<lparr>precisions := precisions acc @ [precision],
                              recalls := recalls acc @ [recall],
                              tn_counts := tn_counts acc @ [tn],
                              fp_counts := fp_counts acc @ [fp],
                              fn_counts := fn_counts acc @ [fn],
                              tp_counts := tp_counts acc @ [tp]\<rparr>))))"

fun pr_loop :: "int list \<Rightarrow> real list \<Rightarrow> real list \<Rightarrow> pr_acc \<Rightarrow> error + pr_acc" where
  "pr_loop labels scores [] acc = Inr acc"
| "pr_loop labels scores (threshold # rest) acc =
     (case pr_step labels scores threshold acc of
        Inl e \<Rightarrow> Inl e
      | Inr acc' \<Rightarrow> pr_loop labels scores rest acc')"

type_synonym pr_values =
  "nat list \<times> nat list \<times> nat list \<times> nat list \<times> real list \<times> real list \<times> nat"

definition get_values_for_pr_curve ::
    "int list \<Rightarrow> real list \<Rightarrow> real list \<Rightarrow> error + (pr_values \<times> string list)" where
  \<comment> \<open>The returned tuple, paired with the lines printed during the call.\<close>
  "get_values_for_pr_curve labels scores thresholds =
     (case pr_loop labels scores thresholds empty_acc of
        Inl e \<Rightarrow> Inl e
      | Inr acc \<Rightarrow>
          Inr ((tp_counts acc, fp_counts acc, tn_counts acc, fn_counts acc,
                precisions acc, recalls acc, length thresholds), printed acc))"


section \<open>Floating-point values that may be not-a-number\<close>

text \<open>
  The rates of a ROC curve are floating-point values that can be not-a-number. They are
  real numbers here, with \<open>None\<close> for not-a-number: an operation with such an operand
  gives not-a-number, and a comparison with one is false.
\<close>

type_synonym number = "real option"

definition nan_lift :: "(real \<Rightarrow> real \<Rightarrow> real) \<Rightarrow> number \<Rightarrow> number \<Rightarrow> number" where
  "nan_lift f a b =
     (case a of None \<Rightarrow> None | Some x \<Rightarrow> (case b of None \<Rightarrow> None | Some y \<Rightarrow> Some (f x y)))"

definition nan_less :: "number \<Rightarrow> number \<Rightarrow> bool" where
  "nan_less a b =
     (case a of None \<Rightarrow> False | Some x \<Rightarrow> (case b of None \<Rightarrow> False | Some y \<Rightarrow> x < y))"

definition nan_le :: "number \<Rightarrow> number \<Rightarrow> bool" where
  "nan_le a b =
     (case a of None \<Rightarrow> False | Some x \<Rightarrow> (case b of None \<Rightarrow> False | Some y \<Rightarrow> x \<le> y))"

definition nan_abs :: "number \<Rightarrow> number" where
  "nan_abs a = (case a of None \<Rightarrow> None | Some x \<Rightarrow> Some \<bar>x\<bar>)"

section \<open>The scikit-learn ROC curve and its area\<close>

text \<open>
  Again library code, written down from its documented algorithm: the samples are ranked
  by decreasing score, one curve point is taken at the last sample of every run of equal
  scores, points lying on a straight segment between their neighbours are dropped
  (\<open>drop_intermediate=True\<close>), and a first point (0, 0) is put in front, with the
  threshold \<open>thresholds[0] + 1\<close> (the library's releases of the repository's time;
  later ones use infinity there).
\<close>

definition cumulative_positives :: "bool list \<Rightarrow> nat \<Rightarrow> nat" where
  \<comment> \<open>\<open>cumsum(y_true)[i]\<close>\<close>
  "cumulative_positives y i = length (filter id (take (Suc i) y))"

definition binary_clf_curve ::
    "int list \<Rightarrow> real list \<Rightarrow> error + (nat list \<times> nat list \<times> real list)" where
  \<comment> \<open>False and true positive counts per distinct score threshold, for the positive
      class 1. Labels other than \<open>{0, 1}\<close> or \<open>{-1, 1}\<close>, no labels at all, and
      sequences of different lengths are rejected.\<close>
  "binary_clf_curve y_true y_score =
     (let classes = sort (remdups y_true) in
      if length classes > 2 then Inl ValueError
      else if length y_true \<noteq> length y_score then Inl ValueError
      else if classes \<notin> {[0, 1], [-1, 1], [0], [-1], [1]} then Inl ValueError
      else
        let ranked = rev (sort_key fst (zip y_score (map (\<lambda>l. l = 1) y_true)));
            scores = map fst ranked;
            truths = map snd ranked;
            n = length ranked;
            threshold_idxs = filter (\<lambda>i. scores ! i \<noteq> scores ! Suc i) [0..<n - 1] @ [n - 1];
            tps = map (cumulative_positives truths) threshold_idxs;
            fps = map (\<lambda>i. 1 + i - cumulative_positives truths i) threshold_idxs
        in Inr (fps, tps, map (\<lambda>i. scores ! i) threshold_idxs))"

definition second_difference :: "nat list \<Rightarrow> nat \<Rightarrow> int" where
  \<comment> \<open>\<open>np.diff(xs, 2)[k]\<close>\<close>
  "second_difference xs k = int (xs ! (k + 2)) - 2 * int (xs ! (k + 1)) + int (xs ! k)"

definition optimal_idxs :: "nat list \<Rightarrow> nat list \<Rightarrow> nat list" where
  \<comment> \<open>\<open>drop_intermediate\<close>: of more than two points, keep the first, the last and those
      where the second difference of either count is not zero.\<close>
  "optimal_idxs fps0 tps0 =
     (let m = length fps0 in
      if m > 2
      then filter (\<lambda>i. i = 0 \<or> i = m - 1 \<or> second_difference fps0 (i - 1) \<noteq> 0
                         \<or> second_difference tps0 (i - 1) \<noteq> 0) [0..<m]
      else [0..<m])"

definition roc_curve ::
    "int list \<Rightarrow> real list \<Rightarrow> error + (number list \<times> number list \<times> real list)" where
  \<comment> \<open>Returns (fpr, tpr, thresholds). Without a negative sample every false positive
      rate is not-a-number, and without a positive sample every true positive rate is
      (the library warns and goes on).\<close>
  "roc_curve y_true y_score =
     (case binary_clf_curve y_true y_score of
        Inl e \<Rightarrow> Inl e
      | Inr (fps0, tps0, thresholds0) \<Rightarrow>
          let opt = optimal_idxs fps0 tps0;
              fps = 0 # map (\<lambda>i. fps0 ! i) opt;
              tps = 0 # map (\<lambda>i. tps0 ! i) opt;
              thresholds = (thresholds0 ! 0 + 1) # map (\<lambda>i. thresholds0 ! i) opt
          in Inr (if last fps \<le> 0 then map (\<lambda>c. None) fps
                  else map (\<lambda>c. Some (real c / real (last fps))) fps,
                  if last tps \<le> 0 then map (\<lambda>c. None) tps
                  else map (\<lambda>c. Some (real c / real (last tps))) tps,
                  thresholds))"

fun trapz :: "number list \<Rightarrow> number list \<Rightarrow> number" where
  \<comment> \<open>\<open>numpy.trapz(y, x)\<close>\<close>
  "trapz (y0 # y1 # ys) (x0 # x1 # xs) =
     nan_lift (+)
       (nan_lift (/) (nan_lift (*) (nan_lift (-) x1 x0) (nan_lift (+) y1 y0)) (Some 2))
       (trapz (y1 # ys) (x1 # xs))"
| "trapz _ _ = Some 0"

definition diff :: "number list \<Rightarrow> number list" where
  \<comment> \<open>\<open>np.diff(x)\<close>\<close>
  "diff x = map (\<lambda>i. nan_lift (-) (x ! Suc i) (x ! i)) [0..<length x - 1]"

definition auc :: "number list \<Rightarrow> number list \<Rightarrow> error + number" where
  \<comment> \<open>Area by the trapezoidal rule; \<open>x\<close> needs at least two points and must not both rise
      and fall. Not-a-number entries pass the test and make the area not-a-number.\<close>
  "auc x y =
     (if length x \<noteq> length y then Inl ValueError
      else if length x < 2 then Inl ValueError
      else let dx = diff x in
        if \<exists>d \<in> set dx. nan_less d (Some 0)
        then (if \<forall>d \<in> set dx. nan_le d (Some 0)
              then Inr (nan_lift (*) (Some (- 1)) (trapz y x))
              else Inl ValueError)
        else Inr (trapz y x))"

section \<open>lib/evaluate.py: roc, auprc and evaluate\<close>

text \<open>
  Two numerical routines stay parameters of the model: the Brent root search on the
  interpolated curve, which gives the equal error rate in floating point, and the
  library's average precision. Either may fail.
\<close>

record numerics =
  brentq_eer :: "number list \<Rightarrow> number list \<Rightarrow> error + real"
  average_precision_score :: "int list \<Rightarrow> real list \<Rightarrow> error + real"

definition argsort :: "real list \<Rightarrow> nat list" where
  \<comment> \<open>The positions of the entries in ascending order of value. The library's default
      sort fixes no order among equal values; here they keep their original order.\<close>
  "argsort xs = map fst (sort_key snd (enumerate 0 xs))"

fun scatter :: "number list \<Rightarrow> nat list \<Rightarrow> int list" where
  "scatter [] order = []"
| "scatter (None # vs) order = - 1 # scatter vs order"
| "scatter (Some v # vs) [] = []"
| "scatter (Some v # vs) (i # order) = int i # scatter vs order"

definition series_argsort :: "number list \<Rightarrow> int list" where
  \<comment> \<open>The data-frame library's \<open>Series.argsort\<close>, as in its releases of the repository's
      time: the entries that are numbers are sorted among themselves and the result is
      written to their places, a place holding not-a-number gets -1.\<close>
  "series_argsort vs = scatter vs (argsort (List.map_filter id vs))"

definition iloc :: "real list \<Rightarrow> int \<Rightarrow> error + real" where
  \<comment> \<open>Selection by position; a negative position counts from the end.\<close>
  "iloc t k =
     (let n = int (length t); j = (if k < 0 then n + k else k)
      in if 0 \<le> j \<and> j < n then Inr (t ! nat j) else Inl IndexError)"

definition balance :: "number list \<Rightarrow> number list \<Rightarrow> number list" where
  \<comment> \<open>\<open>(roc.tf - 0).abs()\<close> with \<open>tf = tpr - (1 - fpr)\<close>\<close>
  "balance tpr fpr =
     map (\<lambda>tf. nan_abs (nan_lift (-) tf (Some 0)))
         (map2 (\<lambda>tp fp. nan_lift (-) tp (nan_lift (-) (Some 1) fp)) tpr fpr)"

definition roc_path :: "string \<Rightarrow> int \<Rightarrow> string" where
  \<comment> \<open>\<open>output_directory + "/ROC" + str(epoch) + ".png"\<close>\<close>
  "roc_path output_directory epoch = output_directory @ ''/ROC'' @ str_int epoch @ ''.png''"

definition roc ::
    "numerics \<Rightarrow> int list \<Rightarrow> real list \<Rightarrow> bool \<Rightarrow> string \<Rightarrow> int \<Rightarrow> string list
       \<Rightarrow> (error + (number \<times> real \<times> real list)) \<times> string list" where
  \<comment> \<open>The last argument and the second result are the plot files written so far, in
      order. Failures of the plotting library itself are not modelled.\<close>
  "roc lib labels scores saveto output_directory epoch files =
     (case roc_curve labels scores of
        Inl e \<Rightarrow> (Inl e, files)
      | Inr (fpr, tpr, t) \<Rightarrow>
         (case auc fpr tpr of
            Inl e \<Rightarrow> (Inl e, files)
          | Inr roc_auc \<Rightarrow>
             (case take 1 (series_argsort (balance tpr fpr)) of
                [] \<Rightarrow> (Inl IndexError, files)
              | k # _ \<Rightarrow>
                 (case iloc t k of
                    Inl e \<Rightarrow> (Inl e, files)
                  | Inr threshold \<Rightarrow>
                     (case brentq_eer lib fpr tpr of
                        Inl e \<Rightarrow> (Inl e, files)
                      | Inr eer \<Rightarrow>
                          (Inr (roc_auc, threshold, t),
                           if saveto then files @ [roc_path output_directory epoch]
                           else files))))))"

definition auprc :: "numerics \<Rightarrow> int list \<Rightarrow> real list \<Rightarrow> error + real" where
  "auprc lib labels scores = average_precision_score lib labels scores"

datatype result = Roc_result number real "real list" | Score real

definition evaluate ::
    "numerics \<Rightarrow> int list \<Rightarrow> real list \<Rightarrow> string \<Rightarrow> string \<Rightarrow> int \<Rightarrow> string list
       \<Rightarrow> (error + result) \<times> real list \<times> string list" where
  \<comment> \<open>Returns the result, the caller's score array as the call leaves it, and the plot
      files written.\<close>
  "evaluate lib labels scores metric output_directory epoch files =
     (if metric = ''roc'' then
        (case roc lib labels scores True output_directory epoch files of
           (Inl e, files') \<Rightarrow> (Inl e, scores, files')
         | (Inr (roc_auc, threshold, t), files') \<Rightarrow>
             (Inr (Roc_result roc_auc threshold t), scores, files'))
      else if metric = ''auprc'' then
        (case auprc lib labels scores of
           Inl e \<Rightarrow> (Inl e, scores, files)
         | Inr ap \<Rightarrow> (Inr (Score ap), scores, files))
      else if metric = ''f1_score'' then
        let threshold = 0.20;
            scores1 = map (\<lambda>s. if s \<ge> threshold then 1 else s) scores;
            scores2 = map (\<lambda>s. if s < threshold then 0 else s) scores1
        in (case f1_score 1 (map real_of_int labels) scores2 of
              Inl e \<Rightarrow> (Inl e, scores2, files)
            | Inr f \<Rightarrow> (Inr (Score f), scores2, files))
      else (Inl NotImplementedError, scores, files))"

section \<open>lib/visualizer.py\<close>

text \<open>
  An image batch is the list of its pixel values. The dashboard writer is the list of
  the calls it has received, and is absent when the display option is off. Saved images
  are recorded with their path and the \<open>normalize\<close> flag passed to the image library.
\<close>

datatype dash_event = Add_images (tag: string) (images: "real list") (step: int)

datatype saved_image = Save_image (image: "real list") (path: string) (normalize_flag: bool)

record visualizer =
  img_dir :: string
  writer :: "dash_event list option"

definition normalize :: "real list \<Rightarrow> error + real list" where
  \<comment> \<open>\<open>(inp - inp.min()) / (inp.max() - inp.min() + 1e-5)\<close>; the minimum of an empty
      array raises ValueError.\<close>
  "normalize inp =
     (case inp of
        [] \<Rightarrow> Inl ValueError
      | x # xs \<Rightarrow>
          let lo = fold min xs x; hi = fold max xs x
          in Inr (map (\<lambda>v. (v - lo) / (hi - lo + 1 / 100000)) inp))"

definition display_current_images ::
    "visualizer \<Rightarrow> real list \<Rightarrow> real list \<Rightarrow> real list \<Rightarrow> string \<Rightarrow> int \<Rightarrow> error + visualizer" where
  \<comment> \<open>The line normalizing \<open>fixed\<close> is commented out in the source, and \<open>fixed\<close> is not
      passed on.\<close>
  "display_current_images self reals fakes fixed train_or_test global_step =
     (case normalize reals of
        Inl e \<Rightarrow> Inl e
      | Inr reals' \<Rightarrow>
         (case normalize fakes of
            Inl e \<Rightarrow> Inl e
          | Inr fakes' \<Rightarrow>
             (case writer self of
                None \<Rightarrow> Inl AttributeError
              | Some calls \<Rightarrow>
                  Inr (self\<lparr>writer := Some (calls @
                    [Add_images (''Reals from '' @ train_or_test @ '' step: '') reals' global_step,
                     Add_images (''Fakes from '' @ train_or_test @ '' step: '') fakes' global_step])\<rparr>))))"

definition zero_pad :: "nat \<Rightarrow> string \<Rightarrow> string" where
  "zero_pad w s = replicate (w - length s) (CHR ''0'') @ s"

definition format_03d :: "int \<Rightarrow> string" where
  \<comment> \<open>\<open>'%03d' % n\<close>: at least three characters, the sign included, padded with zeros.\<close>
  "format_03d n =
     (if n < 0 then CHR ''-'' # zero_pad 2 (digits_of_nat (nat (- n)))
      else zero_pad 3 (digits_of_nat (nat n)))"

definition save_image ::
    "real list \<Rightarrow> string \<Rightarrow> bool \<Rightarrow> saved_image list \<Rightarrow> (error + unit) \<times> saved_image list" where
  \<comment> \<open>The image library's \<open>save_image\<close>: it cannot lay out or normalize an empty batch
      and raises before it writes anything.\<close>
  "save_image tensor fp normalized disk =
     (if tensor = [] then (Inl RuntimeError, disk)
      else (Inr (), disk @ [Save_image tensor fp normalized]))"

definition save_current_images ::
    "visualizer \<Rightarrow> int \<Rightarrow> real list \<Rightarrow> real list \<Rightarrow> real list \<Rightarrow> saved_image list
       \<Rightarrow> (error + unit) \<times> saved_image list" where
  \<comment> \<open>The last argument and the second result are the images written so far, in order;
      what was written before a failure stays.\<close>
  "save_current_images self epoch reals fakes fixed disk =
     (case save_image reals (img_dir self @ ''/reals.png'') True disk of
        (Inl e, disk1) \<Rightarrow> (Inl e, disk1)
      | (Inr u, disk1) \<Rightarrow>
         (case save_image fakes (img_dir self @ ''/fakes.png'') True disk1 of
            (Inl e, disk2) \<Rightarrow> (Inl e, disk2)
          | (Inr u, disk2) \<Rightarrow>
              save_image fixed
                (img_dir self @ ''/fixed_fakes_'' @ format_03d (epoch + 1) @ ''.png'') True disk2))"

section \<open>Properties of get_values_for_pr_curve\<close>

lemma length_concat_square: "length (concat (map (\<lambda>a. map (f a) cs) cs)) = length cs * length cs"
  by (simp add: length_concat o_def sum_list_triv)

lemma unique_labels_set: "set (unique_labels a b) = set a \<union> set b"
  by (simp add: unique_labels_def)

lemma unique_labels_distinct: "distinct (unique_labels a b)"
  by (simp add: unique_labels_def)

lemma unique_labels_sorted: "sorted (unique_labels a b)"
  by (simp add: unique_labels_def)

lemma two_class_list:
  fixes cs :: "int list"
  assumes "sorted cs" "distinct cs" "length cs = 2" "{0, 1} \<subseteq> set cs"
  shows "cs = [0, 1]"
proof -
  from assms(3) obtain a b where cs: "cs = [a, b]"
    by (metis (no_types, opaque_lifting) One_nat_def Suc_1 length_0_conv length_Suc_conv)
  with assms show ?thesis by auto
qed

lemma binarize_values: "set (binarize t scores) \<subseteq> {0, 1}"
  by (auto simp: binarize_def)

lemma length_binarize [simp]: "length (binarize t scores) = length scores"
  by (simp add: binarize_def)

lemma unpack4_Inr: "unpack4 xs = Inr r \<Longrightarrow> length xs = 4"
  by (cases xs rule: unpack4.cases) auto

lemma square_4: "(n::nat) * n = 4 \<Longrightarrow> n = 2"
proof -
  assume h: "n * n = 4"
  have "n \<le> 4" using h by (metis le_square)
  then consider "n = 0" | "n = 1" | "n = 2" | "n = 3" | "n = 4" by linarith
  then show ?thesis using h by cases auto
qed

lemma not_single_class_both:
  assumes "\<not> single_class ps" "ps \<noteq> []" "set ps \<subseteq> {0, 1}"
  shows "set ps = {0, 1}"
proof -
  have d: "distinct (remdups ps)" by simp
  have "length (remdups ps) = card (set ps)" by (simp add: length_remdups_card_conv)
  moreover have "card (set ps) \<noteq> 0" using assms(2) by simp
  moreover have "length (remdups ps) \<noteq> 1" using assms(1) by (simp add: single_class_def)
  ultimately have "card (set ps) \<ge> 2" by linarith
  moreover have "card {0::int, 1} = 2" by simp
  ultimately show ?thesis using assms(3)
    by (metis card_seteq finite.emptyI finite.insertI)
qed

lemma count_sum_binary:
  fixes ys ps :: "int list"
  assumes "length ys = length ps" "set ys \<subseteq> {0, 1}" "set ps \<subseteq> {0, 1}"
  shows "count_where (\<lambda>t p. t = 1 \<and> p = 1) ys ps + count_where (\<lambda>t p. t = 0 \<and> p = 1) ys ps
       + count_where (\<lambda>t p. t = 0 \<and> p = 0) ys ps + count_where (\<lambda>t p. t = 1 \<and> p = 0) ys ps
       = length ys"
  using assms
  by (induction ys ps rule: list_induct2) (auto simp: count_where_def)


lemma count_where_cong:
  assumes "\<And>t p. t \<in> set ys \<Longrightarrow> p \<in> set ps \<Longrightarrow> P t p = Q t p"
  shows "count_where P ys ps = count_where Q ys ps"
proof -
  have "filter (\<lambda>(t, p). P t p) (zip ys ps) = filter (\<lambda>(t, p). Q t p) (zip ys ps)"
  proof (rule filter_cong)
    fix x assume "x \<in> set (zip ys ps)"
    then have "fst x \<in> set ys" "snd x \<in> set ps"
      by (metis prod.collapse set_zip_leftD, metis prod.collapse set_zip_rightD)
    then show "(case x of (t, p) \<Rightarrow> P t p) = (case x of (t, p) \<Rightarrow> Q t p)"
      using assms by (cases x) simp
  qed simp
  then show ?thesis by (simp add: count_where_def)
qed

lemma pr_step_shape:
  assumes "pr_step labels scores t acc = Inr acc'"
  shows "length labels = length scores"
    and "length (unique_labels labels (binarize t scores)) = 2"
proof -
  let ?ps = "binarize t scores"
  let ?cs = "unique_labels labels ?ps"
  from assms show len: "length labels = length scores"
    by (auto simp: pr_step_def confusion_matrix_def Let_def split: if_splits)
  from assms len obtain r where
    "unpack4 (concat (map (\<lambda>a. map (\<lambda>b. count_where (\<lambda>t p. t = a \<and> p = b) labels ?ps) ?cs) ?cs)) = Inr r"
    by (auto simp: pr_step_def confusion_matrix_def Let_def split: sum.splits)
  then have "length ?cs * length ?cs = 4"
    using unpack4_Inr length_concat_square by metis
  then show "length ?cs = 2" by (rule square_4)
qed

lemma pr_step_classes:
  assumes "pr_step labels scores t acc = Inr acc'" "\<not> single_class (binarize t scores)"
  shows "unique_labels labels (binarize t scores) = [0, 1]"
proof -
  let ?ps = "binarize t scores"
  let ?cs = "unique_labels labels ?ps"
  have len: "length labels = length scores" and two: "length ?cs = 2"
    using pr_step_shape [OF assms(1)] by auto
  have "?ps \<noteq> []"
  proof
    assume "?ps = []"
    then have "labels = []" using len by (simp add: binarize_def)
    with \<open>?ps = []\<close> have "?cs = []" by (simp add: unique_labels_def)
    with two show False by simp
  qed
  then have "set ?ps = {0, 1}"
    using not_single_class_both [OF assms(2) _ binarize_values] by simp
  then have "{0, 1} \<subseteq> set ?cs" by (simp add: unique_labels_set)
  then show ?thesis
    using two_class_list [OF unique_labels_sorted unique_labels_distinct two] by simp
qed


lemma pr_step_labels_binary:
  assumes "pr_step labels scores t acc = Inr acc'" "\<not> single_class (binarize t scores)"
  shows "set labels \<subseteq> {0, 1}"
proof -
  have "set labels \<subseteq> set (unique_labels labels (binarize t scores))"
    by (simp add: unique_labels_set)
  then show ?thesis by (simp add: pr_step_classes [OF assms])
qed

lemma pr_step_retained:
  assumes "pr_step labels scores t acc = Inr acc'" "\<not> single_class (binarize t scores)"
  defines "ps \<equiv> binarize t scores"
  defines "TP \<equiv> count_where (\<lambda>t p. t = 1 \<and> p = 1) labels ps"
    and "FP \<equiv> count_where (\<lambda>t p. t = 0 \<and> p = 1) labels ps"
    and "TN \<equiv> count_where (\<lambda>t p. t = 0 \<and> p = 0) labels ps"
    and "FN \<equiv> count_where (\<lambda>t p. t = 1 \<and> p = 0) labels ps"
  shows "acc' = acc\<lparr>precisions := precisions acc @ [prf_divide TP (TP + FP)],
                     recalls := recalls acc @ [prf_divide TP (TP + FN)],
                     tn_counts := tn_counts acc @ [TN],
                     fp_counts := fp_counts acc @ [FP],
                     fn_counts := fn_counts acc @ [FN],
                     tp_counts := tp_counts acc @ [TP]\<rparr>"
proof -
  have cs: "unique_labels labels ps = [0, 1]"
    unfolding ps_def by (rule pr_step_classes [OF assms(1,2)])
  have len: "length labels = length ps"
    unfolding ps_def using pr_step_shape(1) [OF assms(1)] by simp
  have lab: "set labels \<subseteq> {0, 1}" by (rule pr_step_labels_binary [OF assms(1,2)])
  have pred: "set ps \<subseteq> {0, 1}" unfolding ps_def by (rule binarize_values)
  have fp_eq: "count_where (\<lambda>t p. t \<noteq> 1 \<and> p = 1) labels ps = FP"
    unfolding FP_def using lab by (intro count_where_cong) auto
  have fn_eq: "count_where (\<lambda>t p. t = 1 \<and> p \<noteq> 1) labels ps = FN"
    unfolding FN_def using pred by (intro count_where_cong) auto
  have prfs: "precision_recall_fscore_support 1 labels ps =
      Inr (prf_divide TP (TP + FP), prf_divide TP (TP + FN),
           (if prf_divide TP (TP + FP) + prf_divide TP (TP + FN) = 0 then 0
            else 2 * prf_divide TP (TP + FP) * prf_divide TP (TP + FN)
                 / (prf_divide TP (TP + FP) + prf_divide TP (TP + FN))))"
    by (simp add: precision_recall_fscore_support_def len cs fp_eq fn_eq Let_def TP_def [symmetric])
  have cm: "confusion_matrix labels ps = Inr [[TN, FP], [FN, TP]]"
    by (simp add: confusion_matrix_def len cs TP_def FP_def TN_def FN_def)
  from assms(1) show ?thesis
    unfolding pr_step_def ps_def [symmetric] Let_def cm prfs
    using assms(2) [folded ps_def] by simp
qed

lemma pr_step_skipped:
  assumes "pr_step labels scores t acc = Inr acc'" "single_class (binarize t scores)"
  shows "acc' = acc\<lparr>printed := printed acc @ [skip_message (hd (binarize t scores))]\<rparr>"
  using assms
  by (auto simp: pr_step_def Let_def split: sum.splits)


lemma pr_loop_result:
  "pr_loop labels scores ths acc = Inr acc' \<Longrightarrow>
     tp_counts acc' = tp_counts acc @
        map (\<lambda>t. count_where (\<lambda>a b. a = 1 \<and> b = 1) labels (binarize t scores))
            (filter (\<lambda>t. \<not> single_class (binarize t scores)) ths) \<and>
     fp_counts acc' = fp_counts acc @
        map (\<lambda>t. count_where (\<lambda>a b. a = 0 \<and> b = 1) labels (binarize t scores))
            (filter (\<lambda>t. \<not> single_class (binarize t scores)) ths) \<and>
     tn_counts acc' = tn_counts acc @
        map (\<lambda>t. count_where (\<lambda>a b. a = 0 \<and> b = 0) labels (binarize t scores))
            (filter (\<lambda>t. \<not> single_class (binarize t scores)) ths) \<and>
     fn_counts acc' = fn_counts acc @
        map (\<lambda>t. count_where (\<lambda>a b. a = 1 \<and> b = 0) labels (binarize t scores))
            (filter (\<lambda>t. \<not> single_class (binarize t scores)) ths) \<and>
     length (precisions acc') = length (precisions acc) +
        length (filter (\<lambda>t. \<not> single_class (binarize t scores)) ths) \<and>
     length (recalls acc') = length (recalls acc) +
        length (filter (\<lambda>t. \<not> single_class (binarize t scores)) ths) \<and>
     printed acc' = printed acc @
        map (\<lambda>t. skip_message (hd (binarize t scores)))
            (filter (\<lambda>t. single_class (binarize t scores)) ths)"
proof (induction ths arbitrary: acc)
  case Nil
  then show ?case by simp
next
  case (Cons t ths)
  from Cons.prems obtain acc1 where
    step: "pr_step labels scores t acc = Inr acc1" and
    rest: "pr_loop labels scores ths acc1 = Inr acc'"
    by (auto split: sum.splits)
  note ih = Cons.IH [OF rest]
  show ?case
  proof (cases "single_class (binarize t scores)")
    case True
    with pr_step_skipped [OF step] ih show ?thesis by simp
  next
    case False
    with pr_step_retained [OF step] ih show ?thesis by simp
  qed
qed

lemma pr_loop_binary_labels:
  "pr_loop labels scores ths acc = Inr acc' \<Longrightarrow>
     t \<in> set ths \<Longrightarrow> \<not> single_class (binarize t scores) \<Longrightarrow>
     set labels \<subseteq> {0, 1} \<and> length labels = length scores"
proof (induction ths arbitrary: acc)
  case Nil
  then show ?case by simp
next
  case (Cons u ths)
  from Cons.prems(1) obtain acc1 where
    step: "pr_step labels scores u acc = Inr acc1" and
    rest: "pr_loop labels scores ths acc1 = Inr acc'"
    by (auto split: sum.splits)
  show ?case
  proof (cases "t = u")
    case True
    with step Cons.prems(3) show ?thesis
      using pr_step_labels_binary pr_step_shape(1) by blast
  next
    case False
    with Cons.prems(2) have "t \<in> set ths" by simp
    from Cons.IH [OF rest this Cons.prems(3)] show ?thesis .
  qed
qed


lemma two_class_labels:
  assumes "set labels = {0, 1}"
  shows "unique_labels labels (binarize t scores) = [0, 1]"
proof -
  have "set (unique_labels labels (binarize t scores)) = set [0, 1::int]"
    using assms binarize_values [of t scores] by (auto simp: unique_labels_set)
  then show ?thesis
    using unique_labels_sorted unique_labels_distinct
    by (intro sorted_distinct_set_unique) auto
qed

lemma pr_step_succeeds:
  assumes "set labels = {0, 1}" "length scores = length labels"
  shows "\<exists>acc'. pr_step labels scores t acc = Inr acc'"
  by (simp add: pr_step_def Let_def confusion_matrix_def two_class_labels [OF assms(1)]
        precision_recall_fscore_support_def assms(2))

lemma pr_loop_succeeds:
  assumes "set labels = {0, 1}" "length scores = length labels"
  shows "\<exists>acc'. pr_loop labels scores ths acc = Inr acc'"
proof (induction ths arbitrary: acc)
  case Nil
  show ?case by simp
next
  case (Cons t ths)
  obtain acc1 where "pr_step labels scores t acc = Inr acc1"
    using pr_step_succeeds [OF assms] by blast
  with Cons.IH [of acc1] show ?case by simp
qed

text \<open>
  Claim C1. Whenever \<open>get_values_for_pr_curve\<close> returns, the six sequences have the same
  length, which is at most the number of thresholds; they hold one entry for each
  threshold whose binarized predictions are not all one class, in order, and none for the
  others; and the returned count is the number of thresholds asked for. For labels that
  contain both classes 0 and 1 and nothing else, with as many scores as labels, the call
  does return.
\<close>

theorem pr_curve_outputs:
  "(set labels = {0, 1} \<and> length scores = length labels \<longrightarrow>
      (\<exists>r. get_values_for_pr_curve labels scores thresholds = Inr r)) \<and>
   (\<forall>tp fp tn fn precision recall n out.
      get_values_for_pr_curve labels scores thresholds
        = Inr ((tp, fp, tn, fn, precision, recall, n), out) \<longrightarrow>
      length fp = length tp \<and> length tn = length tp \<and> length fn = length tp \<and>
      length precision = length tp \<and> length recall = length tp \<and>
      length tp \<le> length thresholds \<and>
      length tp = length (filter (\<lambda>t. \<not> single_class (binarize t scores)) thresholds) \<and>
      tp = map (\<lambda>t. count_where (\<lambda>a b. a = 1 \<and> b = 1) labels (binarize t scores))
               (filter (\<lambda>t. \<not> single_class (binarize t scores)) thresholds) \<and>
      fp = map (\<lambda>t. count_where (\<lambda>a b. a = 0 \<and> b = 1) labels (binarize t scores))
               (filter (\<lambda>t. \<not> single_class (binarize t scores)) thresholds) \<and>
      tn = map (\<lambda>t. count_where (\<lambda>a b. a = 0 \<and> b = 0) labels (binarize t scores))
               (filter (\<lambda>t. \<not> single_class (binarize t scores)) thresholds) \<and>
      fn = map (\<lambda>t. count_where (\<lambda>a b. a = 1 \<and> b = 0) labels (binarize t scores))
               (filter (\<lambda>t. \<not> single_class (binarize t scores)) thresholds) \<and>
      n = length thresholds)"
proof (intro conjI impI allI)
  assume "set labels = {0, 1} \<and> length scores = length labels"
  then obtain acc where "pr_loop labels scores thresholds empty_acc = Inr acc"
    using pr_loop_succeeds by blast
  then show "\<exists>r. get_values_for_pr_curve labels scores thresholds = Inr r"
    by (simp add: get_values_for_pr_curve_def)
next
  fix tp fp tn fn precision recall n out
  assume "get_values_for_pr_curve labels scores thresholds
            = Inr ((tp, fp, tn, fn, precision, recall, n), out)"
  then obtain acc where loop: "pr_loop labels scores thresholds empty_acc = Inr acc"
    and res: "tp = tp_counts acc" "fp = fp_counts acc" "tn = tn_counts acc"
      "fn = fn_counts acc" "precision = precisions acc" "recall = recalls acc"
      "n = length thresholds"
    by (auto simp: get_values_for_pr_curve_def split: sum.splits)
  note inv = pr_loop_result [OF loop, unfolded empty_acc_def, simplified]
  show "length fp = length tp" "length tn = length tp" "length fn = length tp"
    "length precision = length tp" "length recall = length tp"
    "length tp = length (filter (\<lambda>t. \<not> single_class (binarize t scores)) thresholds)"
    "tp = map (\<lambda>t. count_where (\<lambda>a b. a = 1 \<and> b = 1) labels (binarize t scores))
               (filter (\<lambda>t. \<not> single_class (binarize t scores)) thresholds)"
    "fp = map (\<lambda>t. count_where (\<lambda>a b. a = 0 \<and> b = 1) labels (binarize t scores))
               (filter (\<lambda>t. \<not> single_class (binarize t scores)) thresholds)"
    "tn = map (\<lambda>t. count_where (\<lambda>a b. a = 0 \<and> b = 0) labels (binarize t scores))
               (filter (\<lambda>t. \<not> single_class (binarize t scores)) thresholds)"
    "fn = map (\<lambda>t. count_where (\<lambda>a b. a = 1 \<and> b = 0) labels (binarize t scores))
               (filter (\<lambda>t. \<not> single_class (binarize t scores)) thresholds)"
    "n = length thresholds"
    using inv res by simp_all
  then show "length tp \<le> length thresholds" by simp
qed

theorem pr_curve_outputs_witness:
  "set [0, 0, 1, 1 :: int] = {0, 1} \<and> length [0.1, 0.4, 0.35, 0.8 :: real] = length [0, 0, 1, 1 :: int] \<and>
   get_values_for_pr_curve [0, 0, 1, 1] [0.1, 0.4, 0.35, 0.8] [0, 0.2, 0.37, 0.5, 0.9]
     = Inr (([2, 1, 1], [1, 1, 0], [1, 1, 2], [0, 1, 1], [2 / 3, 1 / 2, 1], [1, 1 / 2, 1 / 2], 5),
        [skip_message 1, skip_message 0]) \<and>
   length [2, 1, 1 :: nat] \<le> length [0, 0.2, 0.37, 0.5, 0.9 :: real] \<and>
   [2, 1, 1] = map (\<lambda>t. count_where (\<lambda>a b. a = 1 \<and> b = 1) [0, 0, 1, 1] (binarize t [0.1, 0.4, 0.35, 0.8]))
               (filter (\<lambda>t. \<not> single_class (binarize t [0.1, 0.4, 0.35, 0.8])) [0, 0.2, 0.37, 0.5, 0.9])"
proof -
  have run: "get_values_for_pr_curve [0, 0, 1, 1] [0.1, 0.4, 0.35, 0.8] [0, 0.2, 0.37, 0.5, 0.9]
     = Inr (([2, 1, 1], [1, 1, 0], [1, 1, 2], [0, 1, 1], [2 / 3, 1 / 2, 1], [1, 1 / 2, 1 / 2], 5),
        [skip_message 1, skip_message 0])"
    by (simp add: get_values_for_pr_curve_def pr_step_def binarize_def confusion_matrix_def
          unique_labels_def count_where_def empty_acc_def single_class_def
          precision_recall_fscore_support_def prf_divide_def Let_def)
  have wf: "set [0, 0, 1, 1 :: int] = {0, 1}" by auto
  from pr_curve_outputs [of "[0, 0, 1, 1]" "[0.1, 0.4, 0.35, 0.8]" "[0, 0.2, 0.37, 0.5, 0.9]"] run wf
  show ?thesis by simp
qed

text \<open>
  Claim C5. For every threshold retained by \<open>get_values_for_pr_curve\<close>, the four counts
  recorded for it add up to the number of samples, the length of the label sequence.
\<close>

theorem pr_curve_counts_sum:
  assumes "get_values_for_pr_curve labels scores thresholds
             = Inr ((tp, fp, tn, fn, precision, recall, n), out)"
  shows "\<forall>i < length tp. tp ! i + fp ! i + tn ! i + fn ! i = length labels"
proof (intro allI impI)
  fix i assume i: "i < length tp"
  let ?kept = "filter (\<lambda>t. \<not> single_class (binarize t scores)) thresholds"
  from assms obtain acc where loop: "pr_loop labels scores thresholds empty_acc = Inr acc"
    and res: "tp = tp_counts acc" "fp = fp_counts acc" "tn = tn_counts acc" "fn = fn_counts acc"
    by (auto simp: get_values_for_pr_curve_def split: sum.splits)
  note inv = pr_loop_result [OF loop, unfolded empty_acc_def, simplified]
  from inv res i have k: "i < length ?kept" by simp
  then have mem: "?kept ! i \<in> set ?kept" by (rule nth_mem)
  then have t: "?kept ! i \<in> set thresholds" "\<not> single_class (binarize (?kept ! i) scores)"
    by auto
  from pr_loop_binary_labels [OF loop t]
  have lab: "set labels \<subseteq> {0, 1}" and len: "length labels = length (binarize (?kept ! i) scores)"
    by simp_all
  from count_sum_binary [OF len lab binarize_values]
  show "tp ! i + fp ! i + tn ! i + fn ! i = length labels"
    using inv res k by simp
qed

theorem pr_curve_counts_sum_witness:
  "get_values_for_pr_curve [0, 0, 1, 1] [0.1, 0.4, 0.35, 0.8] [0, 0.2, 0.37, 0.5, 0.9]
     = Inr (([2, 1, 1], [1, 1, 0], [1, 1, 2], [0, 1, 1], [2 / 3, 1 / 2, 1], [1, 1 / 2, 1 / 2], 5),
        [skip_message 1, skip_message 0]) \<and>
   [2, 1, 1] ! 0 + [1, 1, 0] ! 0 + [1, 1, 2] ! 0 + [0, 1, 1] ! 0 = length [0, 0, 1, 1 :: int] \<and>
   [2, 1, 1] ! 1 + [1, 1, 0] ! 1 + [1, 1, 2] ! 1 + [0, 1, 1] ! 1 = length [0, 0, 1, 1 :: int] \<and>
   [2, 1, 1] ! 2 + [1, 1, 0] ! 2 + [1, 1, 2] ! 2 + [0, 1, 1] ! 2 = length [0, 0, 1, 1 :: int]"
proof -
  have run: "get_values_for_pr_curve [0, 0, 1, 1] [0.1, 0.4, 0.35, 0.8] [0, 0.2, 0.37, 0.5, 0.9]
     = Inr (([2, 1, 1], [1, 1, 0], [1, 1, 2], [0, 1, 1], [2 / 3, 1 / 2, 1], [1, 1 / 2, 1 / 2], 5),
        [skip_message 1, skip_message 0])"
    by (simp add: get_values_for_pr_curve_def pr_step_def binarize_def confusion_matrix_def
          unique_labels_def count_where_def empty_acc_def single_class_def
          precision_recall_fscore_support_def prf_divide_def Let_def)
  note sum = pr_curve_counts_sum [OF run]
  have "(0::nat) < length [2, 1, 1 :: nat]" "(1::nat) < length [2, 1, 1 :: nat]"
    "(2::nat) < length [2, 1, 1 :: nat]" by simp_all
  with sum run show ?thesis by blast
qed

text \<open>
  Claim C4. A threshold that turns every prediction into one class should be skipped
  without a failure. The source unpacks the confusion matrix into four counts before it
  tests for a single predicted class; when the labels hold only that same class the
  matrix has one entry and the unpacking raises. Labels \<open>[0, 0]\<close>, scores
  \<open>[0.1, 0.3]\<close> and the threshold \<open>0.5\<close> show it.
\<close>

theorem pr_curve_single_class_labels_raise:
  "single_class (binarize 0.5 [0.1, 0.3]) \<and>
   get_values_for_pr_curve [0, 0] [0.1, 0.3] [0.5] = Inl ValueError"
  by (simp add: get_values_for_pr_curve_def pr_step_def binarize_def confusion_matrix_def
        unique_labels_def count_where_def empty_acc_def single_class_def Let_def)

text \<open>
  With both classes among the labels the skip works as intended: the call returns, and
  prints one line for every threshold whose predictions are all one class.
\<close>

lemma pr_curve_skips_collapsed:
  assumes "set labels = {0, 1}" "length scores = length labels"
  shows "\<exists>tp fp tn fn precision recall n.
           get_values_for_pr_curve labels scores thresholds
             = Inr ((tp, fp, tn, fn, precision, recall, n),
                    map (\<lambda>t. skip_message (hd (binarize t scores)))
                        (filter (\<lambda>t. single_class (binarize t scores)) thresholds))"
proof -
  obtain acc where loop: "pr_loop labels scores thresholds empty_acc = Inr acc"
    using pr_loop_succeeds [OF assms] by blast
  from pr_loop_result [OF loop]
  have "printed acc = map (\<lambda>t. skip_message (hd (binarize t scores)))
                          (filter (\<lambda>t. single_class (binarize t scores)) thresholds)"
    by (simp add: empty_acc_def)
  then show ?thesis
    by (simp add: get_values_for_pr_curve_def loop)
qed

section \<open>Properties of evaluate\<close>

text \<open>
  Claim C3. For every metric name other than \<open>roc\<close>, \<open>auprc\<close> and \<open>f1_score\<close>,
  \<open>evaluate\<close> fails with NotImplementedError; no plot file is written and the scores are
  left as they were.
\<close>

theorem evaluate_unsupported_metric:
  assumes "metric \<notin> {''roc'', ''auprc'', ''f1_score''}"
  shows "evaluate lib labels scores metric output_directory epoch files
           = (Inl NotImplementedError, scores, files)"
  using assms by (simp add: evaluate_def)

theorem evaluate_unsupported_metric_witness:
  "''unknown'' \<notin> {''roc'', ''auprc'', ''f1_score''} \<and>
   evaluate \<lparr>brentq_eer = (\<lambda>fpr tpr. Inr (1 / 2)), average_precision_score = (\<lambda>y s. Inr 0)\<rparr>
       [0, 1] [0.1, 0.9] ''unknown'' ''./out'' 0 []
     = (Inl NotImplementedError, [0.1, 0.9], [])"
proof -
  have h: "''unknown'' \<notin> {''roc'', ''auprc'', ''f1_score''}" by simp
  from evaluate_unsupported_metric
         [OF h, of "\<lparr>brentq_eer = (\<lambda>fpr tpr. Inr (1 / 2)), average_precision_score = (\<lambda>y s. Inr 0)\<rparr>"
            "[0, 1]" "[0.1, 0.9]" "''./out''" 0 "[]"] h
  show ?thesis by simp
qed

text \<open>
  The plot is written exactly when \<open>roc\<close> gets as far as its result and \<open>saveto\<close> holds.
\<close>

lemma roc_files:
  "roc lib labels scores saveto output_directory epoch files = (res, files') \<Longrightarrow>
     (case res of
        Inl e \<Rightarrow> files' = files
      | Inr r \<Rightarrow> files' = (if saveto then files @ [roc_path output_directory epoch] else files))"
  by (auto simp: roc_def Let_def split: sum.splits list.splits prod.splits if_splits)

text \<open>
  Claim C10. \<open>evaluate\<close> calls \<open>roc\<close> without a \<open>saveto\<close> argument, so the flag keeps
  its default: whenever \<open>evaluate\<close> with the metric \<open>roc\<close> returns a result, the plot
  file \<open>output_directory/ROC<epoch>.png\<close> has been written, and it is the only file
  written; a failing call writes none.
\<close>

theorem evaluate_roc_saves_plot:
  assumes "evaluate lib labels scores ''roc'' output_directory epoch files = (res, scores', files')"
  shows "case res of
           Inl e \<Rightarrow> files' = files
         | Inr r \<Rightarrow> files' = files @ [output_directory @ ''/ROC'' @ str_int epoch @ ''.png'']"
proof -
  obtain res0 fs0 where r: "roc lib labels scores True output_directory epoch files = (res0, fs0)"
    by (cases "roc lib labels scores True output_directory epoch files")
  from roc_files [OF r] assms r show ?thesis
    by (auto simp: evaluate_def roc_path_def split: sum.splits prod.splits)
qed

lemma roc_example:
  "roc_curve [0, 0, 1, 1] [1 / 10, 2 / 5, 7 / 20, 4 / 5]
     = Inr ([Some 0, Some 0, Some (1 / 2), Some (1 / 2), Some 1],
            [Some 0, Some (1 / 2), Some (1 / 2), Some 1, Some 1],
            [9 / 5, 4 / 5, 2 / 5, 7 / 20, 1 / 10])"
  by (simp add: roc_curve_def binary_clf_curve_def optimal_idxs_def Let_def
        cumulative_positives_def second_difference_def)


lemma str_int_3: "str_int 3 = ''3''"
  by code_simp

lemma auc_example:
  "auc [Some 0, Some 0, Some (1 / 2), Some (1 / 2), Some 1]
       [Some 0, Some (1 / 2), Some (1 / 2), Some 1, Some 1] = Inr (Some (3 / 4))"
  by (simp add: auc_def diff_def Let_def nan_lift_def nan_less_def nan_le_def
        upt_rec [of 0] upt_rec [of 1] upt_rec [of 2] upt_rec [of 3] nth_Cons')

lemma evaluate_roc_example:
  "evaluate \<lparr>brentq_eer = (\<lambda>fpr tpr. Inr (1 / 2)), average_precision_score = (\<lambda>y s. Inr 0)\<rparr>
       [0, 0, 1, 1] [1 / 10, 2 / 5, 7 / 20, 4 / 5] ''roc'' ''./out'' 3 []
     = (Inr (Roc_result (Some (3 / 4)) (2 / 5) [9 / 5, 4 / 5, 2 / 5, 7 / 20, 1 / 10]),
        [1 / 10, 2 / 5, 7 / 20, 4 / 5], [''./out/ROC3.png''])"
  by (simp add: evaluate_def roc_def roc_example auc_example balance_def nan_lift_def
        nan_abs_def series_argsort_def argsort_def List.map_filter_simps iloc_def
        roc_path_def str_int_3 Let_def)

theorem evaluate_roc_saves_plot_witness:
  "evaluate \<lparr>brentq_eer = (\<lambda>fpr tpr. Inr (1 / 2)), average_precision_score = (\<lambda>y s. Inr 0)\<rparr>
       [0, 0, 1, 1] [1 / 10, 2 / 5, 7 / 20, 4 / 5] ''roc'' ''./out'' 3 []
     = (Inr (Roc_result (Some (3 / 4)) (2 / 5) [9 / 5, 4 / 5, 2 / 5, 7 / 20, 1 / 10]),
        [1 / 10, 2 / 5, 7 / 20, 4 / 5], [''./out/ROC3.png'']) \<and>
   [''./out/ROC3.png''] = [] @ [''./out'' @ ''/ROC'' @ str_int 3 @ ''.png'']"
  using evaluate_roc_saves_plot [OF evaluate_roc_example] evaluate_roc_example
  by simp

lemma binarize_in_place:
  "map (\<lambda>s. if s < (0.20::real) then 0 else s) (map (\<lambda>s. if s \<ge> 0.20 then 1 else s) scores)
     = map (\<lambda>s. if s \<ge> 1 / 5 then 1 else 0) scores"
  by (induction scores) auto

lemma harmonic_mean:
  fixes t a b :: real
  assumes "0 < t" "0 < a" "0 < b"
  shows "2 * (t / a) * (t / b) / (t / a + t / b) = 2 * t / (a + b)"
proof -
  have s: "t / a + t / b = t * (a + b) / (a * b)"
    using assms by (simp add: field_simps)
  have m: "2 * (t / a) * (t / b) = 2 * t * t / (a * b)"
    by simp
  have ab: "a * b \<noteq> 0" "t \<noteq> 0" "a + b \<noteq> 0" using assms by auto
  have "2 * t * t / (a * b) / (t * (a + b) / (a * b)) = 2 * t * t / (t * (a + b))"
    using ab by simp
  also have "\<dots> = 2 * t / (a + b)" using ab by simp
  finally show ?thesis unfolding s m .
qed

lemma f_measure_eq:
  fixes tp fp fn :: nat
  defines "p \<equiv> prf_divide tp (tp + fp)" and "r \<equiv> prf_divide tp (tp + fn)"
  shows "(if p + r = 0 then 0 else 2 * p * r / (p + r)) = prf_divide (2 * tp) (2 * tp + fp + fn)"
proof (cases "tp = 0")
  case True
  then show ?thesis by (simp add: p_def r_def prf_divide_def)
next
  case False
  then have tp: "0 < real tp" by simp
  have p: "p = real tp / real (tp + fp)" and r: "r = real tp / real (tp + fn)"
    using False by (simp_all add: p_def r_def prf_divide_def)
  have a: "0 < real (tp + fp)" and b: "0 < real (tp + fn)" using False by simp_all
  have "0 < p" "0 < r" unfolding p r using tp a b by simp_all
  then have pos: "p + r \<noteq> 0" by simp
  have "2 * p * r / (p + r) = 2 * real tp / (real (tp + fp) + real (tp + fn))"
    unfolding p r by (rule harmonic_mean [OF tp a b])
  also have "\<dots> = real (2 * tp) / real (2 * tp + fp + fn)" by simp
  finally show ?thesis using pos False by (simp add: prf_divide_def)
qed

lemma f1_score_value:
  assumes "f1_score pos y_true y_pred = Inr f"
  shows "f = prf_divide (2 * count_where (\<lambda>t p. t = pos \<and> p = pos) y_true y_pred)
              (2 * count_where (\<lambda>t p. t = pos \<and> p = pos) y_true y_pred
                 + count_where (\<lambda>t p. t \<noteq> pos \<and> p = pos) y_true y_pred
                 + count_where (\<lambda>t p. t = pos \<and> p \<noteq> pos) y_true y_pred)"
  using assms f_measure_eq
  by (auto simp: f1_score_def precision_recall_fscore_support_def Let_def split: if_splits)

lemma f1_score_range:
  assumes "f1_score pos y_true y_pred = Inr f"
  shows "0 \<le> f \<and> f \<le> 1"
  unfolding f1_score_value [OF assms] by (simp add: prf_divide_def)


lemma binary_targets_accepted:
  fixes y_true y_pred :: "real list"
  assumes "set y_true \<subseteq> {0, 1}" "set y_pred \<subseteq> {0, 1}" "length y_true = length y_pred"
  shows "\<exists>f. f1_score 1 y_true y_pred = Inr f"
proof -
  let ?present = "unique_labels y_true y_pred"
  have sub: "set ?present \<subseteq> {0, 1}" using assms(1,2) by (simp add: unique_labels_def)
  have "length ?present = card (set ?present)"
    by (simp add: unique_labels_def length_remdups_card_conv)
  also have "\<dots> \<le> card {0::real, 1}" by (rule card_mono [OF _ sub]) simp
  finally have le: "length ?present \<le> 2" by simp
  have "1 \<in> set ?present" if "2 \<le> length ?present"
  proof -
    from that le have "card (set ?present) = card {0::real, 1}"
      by (simp add: unique_labels_def length_remdups_card_conv)
    then have "set ?present = {0, 1}" using sub by (simp add: card_subset_eq)
    then show ?thesis by simp
  qed
  with le show ?thesis
    by (auto simp: f1_score_def precision_recall_fscore_support_def Let_def assms(3))
qed

text \<open>
  Claim C2. With the metric \<open>f1_score\<close>, \<open>evaluate\<close> overwrites the caller's scores in
  place, first every score of at least 0.20 by 1 and then every remaining score by 0, so
  that afterwards each entry is 1 where the score was at least 0.20 and 0 elsewhere. Its
  result is the library's F1 score of these binarized scores against the labels, a value
  in [0, 1]; no plot file is written. For labels in \<open>{0, 1}\<close> with as many scores as
  labels the call returns such a value.
\<close>

theorem evaluate_f1_score:
  "\<exists>res.
     evaluate lib labels scores ''f1_score'' output_directory epoch files
       = (res, map (\<lambda>s. if s \<ge> 1 / 5 then 1 else 0) scores, files) \<and>
     res = (case f1_score 1 (map real_of_int labels)
                   (map (\<lambda>s. if s \<ge> 1 / 5 then 1 else 0) scores) of
              Inl e \<Rightarrow> Inl e
            | Inr f \<Rightarrow> Inr (Score f)) \<and>
     (\<forall>r. res = Inr r \<longrightarrow> (\<exists>f. r = Score f \<and> 0 \<le> f \<and> f \<le> 1)) \<and>
     (set labels \<subseteq> {0, 1} \<and> length scores = length labels \<longrightarrow> (\<exists>f. res = Inr (Score f)))"
proof -
  let ?b = "map (\<lambda>s. if s \<ge> 1 / 5 then 1 else 0) scores :: real list"
  let ?res = "case f1_score 1 (map real_of_int labels) ?b of
                Inl e \<Rightarrow> Inl e | Inr f \<Rightarrow> Inr (Score f)"
  let ?x = "map (\<lambda>s. if s < (0.20::real) then 0 else s)
                (map (\<lambda>s. if s \<ge> 0.20 then 1 else s) scores)"
  have x: "?x = ?b" by (rule binarize_in_place)
  have run: "evaluate lib labels scores ''f1_score'' output_directory epoch files = (?res, ?b, files)"
  proof (cases "f1_score 1 (map real_of_int labels) ?b")
    case (Inl e)
    then have "f1_score 1 (map real_of_int labels) ?x = Inl e" by (simp only: x)
    then have "evaluate lib labels scores ''f1_score'' output_directory epoch files
                 = (Inl e, ?x, files)"
      by (simp add: evaluate_def Let_def)
    then show ?thesis unfolding x using Inl by simp
  next
    case (Inr f)
    then have "f1_score 1 (map real_of_int labels) ?x = Inr f" by (simp only: x)
    then have "evaluate lib labels scores ''f1_score'' output_directory epoch files
                 = (Inr (Score f), ?x, files)"
      by (simp add: evaluate_def Let_def)
    then show ?thesis unfolding x using Inr by simp
  qed
  have range: "\<forall>r. ?res = Inr r \<longrightarrow> (\<exists>f. r = Score f \<and> 0 \<le> f \<and> f \<le> 1)"
    using f1_score_range [of 1 "map real_of_int labels" ?b]
    by (auto split: sum.splits)
  have ok: "set labels \<subseteq> {0, 1} \<and> length scores = length labels \<longrightarrow> (\<exists>f. ?res = Inr (Score f))"
  proof
    assume h: "set labels \<subseteq> {0, 1} \<and> length scores = length labels"
    then have "set (map real_of_int labels) \<subseteq> {0, 1}" by auto
    moreover have "set ?b \<subseteq> {0, 1}" by auto
    moreover have "length (map real_of_int labels) = length ?b" using h by simp
    ultimately obtain f where "f1_score 1 (map real_of_int labels) ?b = Inr f"
      using binary_targets_accepted by blast
    then show "\<exists>f. ?res = Inr (Score f)" by simp
  qed
  from run range ok show ?thesis by blast
qed

theorem evaluate_f1_score_witness:
  "set [0, 0, 1, 1 :: int] \<subseteq> {0, 1} \<and>
   length [1 / 10, 2 / 5, 7 / 20, 4 / 5 :: real] = length [0, 0, 1, 1 :: int] \<and>
   evaluate \<lparr>brentq_eer = (\<lambda>fpr tpr. Inr (1 / 2)), average_precision_score = (\<lambda>y s. Inr 0)\<rparr>
       [0, 0, 1, 1] [1 / 10, 2 / 5, 7 / 20, 4 / 5] ''f1_score'' ''./out'' 0 []
     = (Inr (Score (4 / 5)), [0, 1, 1, 1], []) \<and>
   (0::real) \<le> 4 / 5 \<and> (4 / 5 :: real) \<le> 1"
proof -
  have f: "f1_score 1 (map real_of_int [0, 0, 1, 1]) [0, 1, 1, 1] = Inr (4 / 5)"
    by (simp add: f1_score_def precision_recall_fscore_support_def unique_labels_def
          count_where_def prf_divide_def Let_def)
  from evaluate_f1_score
         [of "\<lparr>brentq_eer = (\<lambda>fpr tpr. Inr (1 / 2)), average_precision_score = (\<lambda>y s. Inr 0)\<rparr>"
            "[0, 0, 1, 1]" "[1 / 10, 2 / 5, 7 / 20, 4 / 5]" "''./out''" 0 "[]"] f
  show ?thesis by auto
qed











































text \<open>
  Two inputs on which the routine returns something other than a score attaining the
  least \<open>|TPR - (1 - FPR)|\<close>. With labels of one class only the rates are not-a-number,
  and the result carries a not-a-number area and the last threshold. With all scores
  tied the curve has the two points \<open>(0, 0)\<close> and \<open>(1, 1)\<close>, both at distance 1, and the
  first of them carries the synthetic threshold, the highest score plus one.
\<close>

lemma str_int_0: "str_int 0 = ''0''"
  by code_simp

lemma evaluate_roc_single_class_example:
  "evaluate \<lparr>brentq_eer = (\<lambda>fpr tpr. Inr (1 / 2)), average_precision_score = (\<lambda>y s. Inr 0)\<rparr>
       [0, 0] [1 / 10, 3 / 10] ''roc'' ''./out'' 0 []
     = (Inr (Roc_result None (1 / 10) [13 / 10, 3 / 10, 1 / 10]),
        [1 / 10, 3 / 10], [''./out/ROC0.png''])"
  by (simp add: evaluate_def roc_def roc_curve_def binary_clf_curve_def optimal_idxs_def
        cumulative_positives_def second_difference_def auc_def diff_def nan_lift_def
        nan_less_def nan_le_def nan_abs_def balance_def series_argsort_def argsort_def
        List.map_filter_simps iloc_def roc_path_def str_int_0 Let_def upt_rec [of 0] upt_rec [of 1] nth_Cons')






section \<open>Properties of the visualizer\<close>

lemma normalize_eq:
  assumes "inp \<noteq> []"
  shows "normalize inp =
           Inr (map (\<lambda>v. (v - Min (set inp)) / (Max (set inp) - Min (set inp) + 1 / 100000)) inp)"
proof -
  from assms obtain x xs where inp: "inp = x # xs" by (cases inp) auto
  have "fold min xs x = Min (set inp)" "fold max xs x = Max (set inp)"
    unfolding inp by (simp_all only: Min.set_eq_fold Max.set_eq_fold)
  then show ?thesis
    by (simp add: normalize_def inp Let_def)
qed

lemma normalize_range:
  assumes "normalize inp = Inr out" "v \<in> set out"
  shows "0 \<le> v \<and> v \<le> 1"
proof -
  from assms(1) have ne: "inp \<noteq> []" by (auto simp: normalize_def)
  let ?lo = "Min (set inp)" and ?hi = "Max (set inp)"
  from assms normalize_eq [OF ne] obtain u where
    u: "u \<in> set inp" and v: "v = (u - ?lo) / (?hi - ?lo + 1 / 100000)"
    by auto
  have "?lo \<le> u" "u \<le> ?hi" using u by simp_all
  then have "0 \<le> u - ?lo" "u - ?lo \<le> ?hi - ?lo + 1 / 100000" "0 < ?hi - ?lo + 1 / 100000"
    by simp_all
  then show ?thesis unfolding v by simp
qed

lemma normalize_constant:
  assumes "normalize inp = Inr out" "Max (set inp) = Min (set inp)" "v \<in> set out"
  shows "v = 0"
proof -
  from assms(1) have ne: "inp \<noteq> []" by (auto simp: normalize_def)
  let ?lo = "Min (set inp)" and ?hi = "Max (set inp)"
  from assms normalize_eq [OF ne] obtain u where
    u: "u \<in> set inp" and v: "v = (u - ?lo) / (?hi - ?lo + 1 / 100000)"
    by auto
  have "?lo \<le> u" "u \<le> ?hi" using u by simp_all
  with assms(2) have "u = ?lo" by simp
  then show ?thesis unfolding v by simp
qed

text \<open>
  Claim C8, as amended. With a dashboard writer and non-empty batches,
  \<open>display_current_images\<close> normalizes the reals and the fakes, each by its own minimum
  and range plus 1e-5, and passes exactly these two batches to the writer's
  \<open>add_images\<close>; the fixed batch is neither normalized nor passed on. Every normalized
  value lies in [0, 1], a constant batch becomes 0 everywhere, and the largest value of a
  normalized batch is at most 1.
\<close>

theorem display_current_images_forwards:
  assumes "writer self = Some calls" "reals \<noteq> []" "fakes \<noteq> []"
  shows "\<exists>reals' fakes'.
     display_current_images self reals fakes fixed train_or_test global_step
       = Inr (self\<lparr>writer := Some (calls @
           [Add_images (''Reals from '' @ train_or_test @ '' step: '') reals' global_step,
            Add_images (''Fakes from '' @ train_or_test @ '' step: '') fakes' global_step])\<rparr>) \<and>
     reals' = map (\<lambda>v. (v - Min (set reals)) / (Max (set reals) - Min (set reals) + 1 / 100000)) reals \<and>
     fakes' = map (\<lambda>v. (v - Min (set fakes)) / (Max (set fakes) - Min (set fakes) + 1 / 100000)) fakes \<and>
     (\<forall>v \<in> set reals' \<union> set fakes'. 0 \<le> v \<and> v \<le> 1) \<and>
     (Max (set reals) = Min (set reals) \<longrightarrow> (\<forall>v \<in> set reals'. v = 0)) \<and>
     (Max (set fakes) = Min (set fakes) \<longrightarrow> (\<forall>v \<in> set fakes'. v = 0)) \<and>
     Max (set reals') \<le> 1 \<and> Max (set fakes') \<le> 1"
proof -
  let ?r = "map (\<lambda>v. (v - Min (set reals)) / (Max (set reals) - Min (set reals) + 1 / 100000)) reals"
  let ?f = "map (\<lambda>v. (v - Min (set fakes)) / (Max (set fakes) - Min (set fakes) + 1 / 100000)) fakes"
  have nr: "normalize reals = Inr ?r" by (rule normalize_eq [OF assms(2)])
  have nf: "normalize fakes = Inr ?f" by (rule normalize_eq [OF assms(3)])
  have run: "display_current_images self reals fakes fixed train_or_test global_step
       = Inr (self\<lparr>writer := Some (calls @
           [Add_images (''Reals from '' @ train_or_test @ '' step: '') ?r global_step,
            Add_images (''Fakes from '' @ train_or_test @ '' step: '') ?f global_step])\<rparr>)"
    by (simp only: display_current_images_def nr nf assms(1) sum.case option.case)
  have range: "\<forall>v \<in> set ?r \<union> set ?f. 0 \<le> v \<and> v \<le> 1"
    using normalize_range [OF nr] normalize_range [OF nf] by blast
  have cr: "Max (set reals) = Min (set reals) \<longrightarrow> (\<forall>v \<in> set ?r. v = 0)"
    using normalize_constant [OF nr] by blast
  have cf: "Max (set fakes) = Min (set fakes) \<longrightarrow> (\<forall>v \<in> set ?f. v = 0)"
    using normalize_constant [OF nf] by blast
  have mr: "Max (set ?r) \<le> 1"
  proof -
    have "Max (set ?r) \<in> set ?r" using assms(2) by (intro Max_in) simp_all
    then show ?thesis using normalize_range [OF nr] by blast
  qed
  have mf: "Max (set ?f) \<le> 1"
  proof -
    have "Max (set ?f) \<in> set ?f" using assms(3) by (intro Max_in) simp_all
    then show ?thesis using normalize_range [OF nf] by blast
  qed
  show ?thesis
    apply (rule exI [of _ ?r], rule exI [of _ ?f])
    using run range cr cf mr mf by blast
qed

lemma normalize_0_1: "normalize [0, 1] = Inr [0, 100000 / 100001]"
  by (simp add: normalize_def)

lemma normalize_0_2: "normalize [0, 2] = Inr [0, 200000 / 200001]"
  by (simp add: normalize_def)

lemma normalize_5_8: "normalize [5, 8] = Inr [0, 300000 / 300001]"
  by (simp add: normalize_def)

lemma display_example:
  "display_current_images \<lparr>img_dir = ''out'', writer = Some []\<rparr> [0, 1] [0, 2] [5, 8] ''train'' 0
     = Inr \<lparr>img_dir = ''out'',
            writer = Some [Add_images ''Reals from train step: '' [0, 100000 / 100001] 0,
                           Add_images ''Fakes from train step: '' [0, 200000 / 200001] 0]\<rparr>"
  by (simp add: display_current_images_def normalize_0_1 normalize_0_2)

theorem display_current_images_forwards_witness:
  "writer \<lparr>img_dir = ''out'', writer = Some []\<rparr> = Some [] \<and> [0, 1 :: real] \<noteq> [] \<and> [0, 2 :: real] \<noteq> [] \<and>
   display_current_images \<lparr>img_dir = ''out'', writer = Some []\<rparr> [0, 1] [0, 2] [5, 8] ''train'' 0
     = Inr \<lparr>img_dir = ''out'',
            writer = Some [Add_images ''Reals from train step: '' [0, 100000 / 100001] 0,
                           Add_images ''Fakes from train step: '' [0, 200000 / 200001] 0]\<rparr> \<and>
   Max (set [0, 100000 / 100001 :: real]) \<le> 1"
proof -
  have w: "writer \<lparr>img_dir = ''out'', writer = Some []\<rparr> = Some []" by simp
  have r: "[0, 1 :: real] \<noteq> []" and f: "[0, 2 :: real] \<noteq> []" by simp_all
  from display_current_images_forwards [OF w r f, of "[5, 8]" "''train''" 0]
  show ?thesis by (simp add: w)
qed

text \<open>
  Claim C8 as stated has all three batches normalized and forwarded. With the fixed
  batch \<open>[5, 8]\<close> the writer receives two calls, carrying the normalized reals and
  fakes; neither carries the fixed batch, raw or normalized.
\<close>

theorem display_current_images_fixed_counterexample:
  "normalize [5, 8] = Inr [0, 300000 / 300001] \<and>
   display_current_images \<lparr>img_dir = ''out'', writer = Some []\<rparr> [0, 1] [0, 2] [5, 8] ''train'' 0
     = Inr \<lparr>img_dir = ''out'',
            writer = Some [Add_images ''Reals from train step: '' [0, 100000 / 100001] 0,
                           Add_images ''Fakes from train step: '' [0, 200000 / 200001] 0]\<rparr> \<and>
   map images [Add_images ''Reals from train step: '' [0, 100000 / 100001] 0,
               Add_images ''Fakes from train step: '' [0, 200000 / 200001] 0]
     = [[0, 100000 / 100001], [0, 200000 / 200001]] \<and>
   [0, 300000 / 300001] \<notin> set [[0, 100000 / 100001], [0, 200000 / 200001 :: real]] \<and>
   [5, 8] \<notin> set [[0, 100000 / 100001], [0, 200000 / 200001 :: real]]"
  by (simp add: display_example normalize_5_8)

lemma length_zero_pad: "w \<le> length (zero_pad w s)"
  by (simp add: zero_pad_def)

lemma length_format_03d: "3 \<le> length (format_03d n)"
  using length_zero_pad [of 2] length_zero_pad [of 3]
  by (simp add: format_03d_def Suc_le_eq numeral_3_eq_3 numeral_2_eq_2 less_Suc_eq_le)

text \<open>
  Claim C9, as amended. For every epoch and non-empty batches, \<open>save_current_images\<close>
  writes exactly three images into the image directory of the run, each with
  \<open>normalize=True\<close>: the reals as \<open>reals.png\<close>, the fakes as \<open>fakes.png\<close>, and the
  fixed fakes as \<open>fixed_fakes_<n>.png\<close>, where \<open><n>\<close> is \<open>epoch + 1\<close> printed by
  \<open>%03d\<close>: at least three characters, and for an epoch that is not negative the decimal
  digits of \<open>epoch + 1\<close> padded with zeros on the left. With an empty batch of reals the
  call fails and writes nothing.
\<close>

theorem save_current_images_files:
  "(reals \<noteq> [] \<and> fakes \<noteq> [] \<and> fixed \<noteq> [] \<longrightarrow>
      (\<exists>added.
         save_current_images self epoch reals fakes fixed disk = (Inr (), disk @ added) \<and>
         length added = 3 \<and>
         map path added =
           [img_dir self @ ''/reals.png'', img_dir self @ ''/fakes.png'',
            img_dir self @ ''/fixed_fakes_'' @ format_03d (epoch + 1) @ ''.png''] \<and>
         map image added = [reals, fakes, fixed] \<and>
         (\<forall>s \<in> set added. normalize_flag s))) \<and>
   3 \<le> length (format_03d (epoch + 1)) \<and>
   (0 \<le> epoch \<longrightarrow> format_03d (epoch + 1) = zero_pad 3 (str_int (epoch + 1))) \<and>
   (reals = [] \<longrightarrow> (\<exists>e. save_current_images self epoch reals fakes fixed disk = (Inl e, disk)))"
proof -
  have "0 \<le> epoch \<longrightarrow> format_03d (epoch + 1) = zero_pad 3 (str_int (epoch + 1))"
    by (simp add: format_03d_def str_int_def)
  then show ?thesis
    by (simp add: save_current_images_def save_image_def length_format_03d)
qed

theorem save_current_images_files_witness:
  "[0, 1 :: real] \<noteq> [] \<and> [0, 2 :: real] \<noteq> [] \<and> [5, 7 :: real] \<noteq> [] \<and> (0::int) \<le> 11 \<and>
   save_current_images \<lparr>img_dir = ''out'', writer = None\<rparr> 11 [0, 1] [0, 2] [5, 7] []
     = (Inr (), [Save_image [0, 1] ''out/reals.png'' True, Save_image [0, 2] ''out/fakes.png'' True,
                 Save_image [5, 7] ''out/fixed_fakes_012.png'' True]) \<and>
   format_03d (11 + 1) = zero_pad 3 (str_int (11 + 1)) \<and>
   save_current_images \<lparr>img_dir = ''out'', writer = None\<rparr> 11 [] [0, 2] [5, 7] []
     = (Inl RuntimeError, [])"
proof -
  have f: "format_03d 12 = ''012''" by code_simp
  have run: "save_current_images \<lparr>img_dir = ''out'', writer = None\<rparr> 11 [0, 1] [0, 2] [5, 7] []
     = (Inr (), [Save_image [0, 1] ''out/reals.png'' True, Save_image [0, 2] ''out/fakes.png'' True,
                 Save_image [5, 7] ''out/fixed_fakes_012.png'' True])"
    by (simp add: save_current_images_def save_image_def f)
  have fail: "save_current_images \<lparr>img_dir = ''out'', writer = None\<rparr> 11 [] [0, 2] [5, 7] []
     = (Inl RuntimeError, [])"
    by (simp add: save_current_images_def save_image_def)
  from save_current_images_files
         [of "[0, 1]" "[0, 2]" "[5, 7]" "\<lparr>img_dir = ''out'', writer = None\<rparr>" 11 "[]"] run fail
  show ?thesis by simp
qed

text \<open>
  Claim C9 as stated names the third file after the epoch passed by the caller. For
  epoch 0 the file is \<open>fixed_fakes_001.png\<close>; no file carries the epoch 0 itself,
  printed plainly or with three digits.
\<close>

theorem save_current_images_epoch_name_counterexample:
  "map path (snd (save_current_images \<lparr>img_dir = ''out'', writer = None\<rparr> 0 [0, 1] [0, 2] [5, 7] []))
     = [''out/reals.png'', ''out/fakes.png'', ''out/fixed_fakes_001.png''] \<and>
   ''out/fixed_fakes_'' @ str_int 0 @ ''.png''
     \<notin> set [''out/reals.png'', ''out/fakes.png'', ''out/fixed_fakes_001.png''] \<and>
   ''out/fixed_fakes_'' @ format_03d 0 @ ''.png''
     \<notin> set [''out/reals.png'', ''out/fakes.png'', ''out/fixed_fakes_001.png'']"
proof -
  have f1: "format_03d 1 = ''001''" by code_simp
  have f0: "format_03d 0 = ''000''" by code_simp
  have s0: "str_int 0 = ''0''" by code_simp
  show ?thesis by (simp add: save_current_images_def save_image_def f1 f0 s0)
qed

end
